theory Spec2Isabelle
  imports Main
begin

section \<open>The connection pool and session layer of \<open>src/mysql/db.go\<close>\<close>

text \<open>
  The file \<open>db.go\<close> drives physical MySQL sessions (type \<open>conn\<close>, not part of the
  file) through pooled wrappers (\<open>dbConn\<close>), a facade (\<open>DB\<close>), transactions (\<open>Tx\<close>)
  and logical prepared statements (\<open>Stmt\<close>). The model is sequential: one caller runs one
  operation at a time. Objects reached through Go pointers live in explicit stores
  indexed by addresses (natural numbers); a pointer is an \<open>option\<close> (\<open>None\<close> is \<open>nil\<close>).
  Every mutex operation and every command handed to a physical session is appended to
  a trace, so that the order of the calls the code makes can be stated and proved.
  There is one \<open>DB\<close>; the \<open>db\<close> fields of \<open>Tx\<close> and \<open>Stmt\<close> point to it and are left
  out, as are the connect parameters of the \<open>DB\<close> (they are only handed to \<open>Connect\<close>)
  and the calls to the logger.
\<close>

subsection \<open>Errors\<close>

text \<open>
  The sentinels \<open>ErrBadConn\<close> and \<open>ErrTxDone\<close> are declared elsewhere in the package;
  \<open>ErrOther n\<close> stands for any other non-nil error value. A Go \<open>error\<close> is an
  \<open>error option\<close>, \<open>None\<close> being \<open>nil\<close>.
\<close>

datatype error = ErrBadConn | ErrTxDone | ErrOther nat

type_synonym err = "error option"

subsection \<open>The physical session, as a parameter\<close>

text \<open>
  Modelled from the spec: the \<open>conn\<close> type and its server statements (\<open>stmt\<close>) are not in
  \<open>db.go\<close>. Section 6 of the specification gives the capability: \<open>connect\<close>, \<open>ping\<close>,
  \<open>exec\<close>, \<open>query\<close>, \<open>prepare\<close>, \<open>begin\<close>, \<open>commit\<close>, \<open>rollback\<close>, \<open>close\<close>, the two
  status observers \<open>isInTransaction\<close> and \<open>isAutoCommit\<close>, and \<open>exec\<close>, \<open>query\<close>,
  \<open>close\<close> on a server statement; every command yields either a value or an error.

  A command is a value of type \<open>cmd\<close>. What the session answers is a parameter of
  every operation: an environment \<open>env\<close> maps the number of commands answered so far
  and the command to a \<open>reply\<close>. A reply carries the error (\<open>None\<close> for success), a
  handle of the value returned on success (a result, a result set or a server
  statement), and the status the session reports afterwards. Quantifying over all
  environments covers every sequence of answers.
\<close>

type_synonym arg = nat

datatype cmd =
    Connect
  | Ping
  | Exec string "arg list"
  | Query string "arg list"
  | Prepare string
  | Begin
  | Commit
  | Rollback
  | Close
  | StmtExec nat "arg list"
  | StmtQuery nat "arg list"
  | StmtClose nat

record reply =
  rerr :: err
  rval :: nat
  rtrans :: bool
  rauto :: bool

type_synonym env = "nat \<Rightarrow> cmd \<Rightarrow> reply"

text \<open>The pointer a command returns next to its error: \<open>nil\<close> exactly on an error.\<close>

definition rptr :: "reply \<Rightarrow> nat option" where
  "rptr r = (if rerr r = None then Some (rval r) else None)"

subsection \<open>Objects and the world\<close>

text \<open>
  \<open>dbConn\<close>: the \<open>closed\<close> flag of the wrapper and the two status bits of the embedded
  session that \<open>isInTransaction()\<close> and \<open>isAutoCommit()\<close> read. The field
  \<open>dbConn.stmts\<close> is only initialised in \<open>db.go\<close> and never read, and is left out.
\<close>

record dbConn =
  closed :: bool
  inTrans :: bool
  autoCommit :: bool

text \<open>\<open>Tx\<close>: the \<open>done\<close> flag and the pinned connection (\<open>nil\<close> until \<open>Begin\<close> succeeds).\<close>

record Tx =
  tx_done :: bool
  tx_conn :: "nat option"

text \<open>
  \<open>Stmt\<close>: the SQL text, the cache \<open>stmts\<close> from connection addresses to server
  statements, and the transactional pair \<open>txStmt\<close>, \<open>tx\<close>. A \<open>Stmt\<close> is held by its
  caller only, so operations take it and return it updated.
\<close>

record Stmt =
  str :: string
  stmts :: "nat \<rightharpoonup> nat"
  txStmt :: "nat option"
  tx :: "nat option"

datatype event =
    PoolLock
  | PoolUnlock
  | Lock nat
  | Unlock nat
  | Call nat cmd

text \<open>
  The world: the \<open>DB\<close> (its \<open>maxIdleConns\<close>, a Go \<open>int\<close>, and its idle list \<open>conns\<close>,
  front first, whose entries are \<open>*dbConn\<close> pointers and may be \<open>nil\<close>), the stores of
  \<open>dbConn\<close> and \<open>Tx\<close> objects with the next free address of each, the number of
  commands answered so far, and the trace.
\<close>

record world =
  maxIdleConns :: int
  conns :: "nat option list"
  heap :: "nat \<Rightarrow> dbConn"
  nextConn :: nat
  txs :: "nat \<Rightarrow> Tx"
  nextTx :: nat
  clock :: nat
  trace :: "event list"

definition emit :: "event \<Rightarrow> world \<Rightarrow> world" where
  "emit e w = w\<lparr>trace := trace w @ [e]\<rparr>"

text \<open>
  Sending a command to the session of connection \<open>c\<close>: the environment answers, the
  status bits of \<open>c\<close> become those of the reply, and the call is traced.
\<close>

definition send :: "env \<Rightarrow> nat \<Rightarrow> cmd \<Rightarrow> world \<Rightarrow> reply \<times> world" where
  "send env c x w =
     (let r = env (clock w) x
      in (r, w\<lparr>heap := (heap w)(c := (heap w c)\<lparr>inTrans := rtrans r, autoCommit := rauto r\<rparr>),
               clock := Suc (clock w),
               trace := trace w @ [Call c x]\<rparr>))"

subsection \<open>\<open>dbConn.Close\<close>, \<open>NewDB\<close>, \<open>newConn\<close>\<close>

definition dbConn_Close :: "nat \<Rightarrow> world \<Rightarrow> world" where
  "dbConn_Close c w =
     (if closed (heap w c) then w
      else emit (Call c Close) (w\<lparr>heap := (heap w)(c := (heap w c)\<lparr>closed := True\<rparr>)\<rparr>))"

definition NewDB :: "int \<Rightarrow> world" where
  "NewDB m =
     \<lparr>maxIdleConns = m, conns = [],
      heap = (\<lambda>_. \<lparr>closed = False, inTrans = False, autoCommit = True\<rparr>), nextConn = 0,
      txs = (\<lambda>_. \<lparr>tx_done = False, tx_conn = None\<rparr>), nextTx = 0,
      clock = 0, trace = []\<rparr>"

text \<open>
  \<open>newConn\<close> returns \<open>(nil, err)\<close> when the connect fails and \<open>(dc, nil)\<close> otherwise:
  \<open>Inl err\<close> and \<open>Inr dc\<close>.
\<close>

definition newConn :: "env \<Rightarrow> world \<Rightarrow> (error + nat) \<times> world" where
  "newConn env w =
     (let r = env (clock w) Connect;
          c = nextConn w;
          w1 = w\<lparr>clock := Suc (clock w), trace := trace w @ [Call c Connect]\<rparr>
      in case rerr r of
           Some e \<Rightarrow> (Inl e, w1)
         | None \<Rightarrow>
             (Inr c, w1\<lparr>heap := (heap w1)(c := \<lparr>closed = False, inTrans = rtrans r,
                                                 autoCommit = rauto r\<rparr>),
                        nextConn := Suc c\<rparr>))"

subsection \<open>The pool: \<open>tryReuse\<close>, \<open>popConn\<close>, \<open>pushConn\<close>\<close>

definition tryReuse :: "env \<Rightarrow> nat \<Rightarrow> world \<Rightarrow> err \<times> world" where
  "tryReuse env co w =
     (if inTrans (heap w co) then
        (let (r, w1) = send env co Rollback w in (rerr r, w1))
      else if \<not> autoCommit (heap w co) then
        (let (r, w1) = send env co (Exec ''set autocommit = 1'' []) w in (rerr r, w1))
      else (None, w))"

definition popConn :: "env \<Rightarrow> world \<Rightarrow> (error + nat) \<times> world" where
  "popConn env w =
     (let w1 = emit PoolLock w;
          (co, w2) = (if length (conns w1) > 0
                      then (last (conns w1), w1\<lparr>conns := butlast (conns w1)\<rparr>)
                      else (None, w1));
          w3 = emit PoolUnlock w2
      in case co of
           None \<Rightarrow> newConn env w3
         | Some c \<Rightarrow>
             (let w4 = emit (Lock c) w3;
                  (r, w5) = send env c Ping w4
              in if rerr r = None then
                   (let (e, w6) = tryReuse env c w5
                    in if e = None then (Inr c, emit (Unlock c) w6)
                       else newConn env (emit (Unlock c) (dbConn_Close c w6)))
                 else newConn env (emit (Unlock c) (dbConn_Close c w5))))"

definition pushConn :: "nat option \<Rightarrow> err \<Rightarrow> world \<Rightarrow> world" where
  "pushConn co e w =
     (let (closeConn, w1) =
            (if e = Some ErrBadConn then (co, w)
             else
               (let wl = emit PoolLock w
                in if int (length (conns wl)) \<ge> maxIdleConns wl
                   then (co, emit PoolUnlock wl)
                   else (None, emit PoolUnlock (wl\<lparr>conns := conns wl @ [co]\<rparr>))))
      in case closeConn of
           None \<Rightarrow> w1
         | Some c \<Rightarrow> emit (Unlock c) (dbConn_Close c (emit (Lock c) w1)))"

subsection \<open>Bounded retry loops\<close>

text \<open>
  Every loop of the file is \<open>for i := 0; i < N; i++ { ... }\<close> with a body that does not
  read \<open>i\<close> and is left by \<open>break\<close> or \<open>return\<close>; nothing but \<open>return\<close> follows the
  loop, so both exits are the same. \<open>for_loop N body s\<close> runs the body at most \<open>N\<close>
  times from the state \<open>s\<close>; the body returns whether it leaves the loop, and the new
  state. The first component of the result counts the iterations that were run.
\<close>

fun for_loop :: "nat \<Rightarrow> ('s \<Rightarrow> bool \<times> 's) \<Rightarrow> 's \<Rightarrow> nat \<times> 's" where
  "for_loop 0 body s = (0, s)"
| "for_loop (Suc n) body s =
     (let (stop, s1) = body s
      in if stop then (Suc 0, s1)
         else (let (k, s2) = for_loop n body s1 in (Suc k, s2)))"


subsection \<open>\<open>DB.Ping\<close>, \<open>DB.Exec\<close>, \<open>DB.Query\<close>\<close>




definition DB_exec :: "env \<Rightarrow> string \<Rightarrow> arg list \<Rightarrow> world \<Rightarrow> (nat option \<times> err) \<times> world" where
  "DB_exec env query args w =
     (case popConn env w of
        (Inl e, w1) \<Rightarrow> ((None, Some e), w1)
      | (Inr c, w1) \<Rightarrow>
          (let w2 = emit (Lock c) w1;
               (r, w3) = send env c (Exec query args) w2;
               w4 = emit (Unlock c) w3
           in ((rptr r, rerr r), pushConn (Some c) (rerr r) w4)))"

definition DB_Exec_body ::
  "env \<Rightarrow> string \<Rightarrow> arg list \<Rightarrow> (nat option \<times> err) \<times> world \<Rightarrow> bool \<times> ((nat option \<times> err) \<times> world)" where
  "DB_Exec_body env query args = (\<lambda>(res0, w).
     let ((r, e), w1) = DB_exec env query args w
     in (e \<noteq> Some ErrBadConn, ((r, e), w1)))"

definition DB_Exec_run ::
  "env \<Rightarrow> string \<Rightarrow> arg list \<Rightarrow> world \<Rightarrow> nat \<times> ((nat option \<times> err) \<times> world)" where
  "DB_Exec_run env query args w = for_loop 10 (DB_Exec_body env query args) ((None, None), w)"

definition DB_Exec :: "env \<Rightarrow> string \<Rightarrow> arg list \<Rightarrow> world \<Rightarrow> (nat option \<times> err) \<times> world" where
  "DB_Exec env query args w = snd (DB_Exec_run env query args w)"

definition DB_query :: "env \<Rightarrow> string \<Rightarrow> arg list \<Rightarrow> world \<Rightarrow> (nat option \<times> err) \<times> world" where
  "DB_query env query args w =
     (case popConn env w of
        (Inl e, w1) \<Rightarrow> ((None, Some e), w1)
      | (Inr c, w1) \<Rightarrow>
          (let w2 = emit (Lock c) w1;
               (r, w3) = send env c (Query query args) w2;
               w4 = emit (Unlock c) w3
           in ((rptr r, rerr r), pushConn (Some c) (rerr r) w4)))"

definition DB_Query_body ::
  "env \<Rightarrow> string \<Rightarrow> arg list \<Rightarrow> (nat option \<times> err) \<times> world \<Rightarrow> bool \<times> ((nat option \<times> err) \<times> world)" where
  "DB_Query_body env query args = (\<lambda>(res0, w).
     let ((r, e), w1) = DB_query env query args w
     in (e \<noteq> Some ErrBadConn, ((r, e), w1)))"

definition DB_Query_run ::
  "env \<Rightarrow> string \<Rightarrow> arg list \<Rightarrow> world \<Rightarrow> nat \<times> ((nat option \<times> err) \<times> world)" where
  "DB_Query_run env query args w = for_loop 10 (DB_Query_body env query args) ((None, None), w)"

definition DB_Query :: "env \<Rightarrow> string \<Rightarrow> arg list \<Rightarrow> world \<Rightarrow> (nat option \<times> err) \<times> world" where
  "DB_Query env query args w = snd (DB_Query_run env query args w)"

subsection \<open>\<open>Stmt.prepare\<close> and \<open>DB.Prepare\<close>\<close>

definition newStmt :: "string \<Rightarrow> Stmt" where
  "newStmt query = \<lparr>str = query, stmts = Map.empty, txStmt = None, tx = None\<rparr>"

text \<open>
  \<open>Stmt.prepare\<close> returns \<open>(conn, st, err)\<close>. With a non-nil error the result is
  \<open>Inl (conn, err)\<close> (\<open>conn\<close> is \<open>nil\<close> when the acquisition failed, and the callers do
  not read \<open>st\<close>); with a nil error it is \<open>Inr (conn, st)\<close>.
\<close>

definition Stmt_prepare ::
  "env \<Rightarrow> string \<Rightarrow> Stmt \<Rightarrow> world \<Rightarrow> ((nat option \<times> error) + (nat \<times> nat)) \<times> Stmt \<times> world" where
  "Stmt_prepare env query s w =
     (case popConn env w of
        (Inl e, w1) \<Rightarrow> (Inl (None, e), s, w1)
      | (Inr c, w1) \<Rightarrow>
          (case stmts s c of
             Some st \<Rightarrow> (Inr (c, st), s, w1)
           | None \<Rightarrow>
               (let w2 = emit (Lock c) w1;
                    (r, w3) = send env c (Prepare query) w2;
                    w4 = emit (Unlock c) w3
                in case rerr r of
                     None \<Rightarrow> (Inr (c, rval r), s\<lparr>stmts := (stmts s)(c \<mapsto> rval r)\<rparr>, w4)
                   | Some e \<Rightarrow> (Inl (Some c, e), s, w4))))"

definition DB_Prepare_body ::
  "env \<Rightarrow> string \<Rightarrow> err \<times> Stmt \<times> world \<Rightarrow> bool \<times> (err \<times> Stmt \<times> world)" where
  "DB_Prepare_body env query = (\<lambda>(e0, s, w).
     case Stmt_prepare env query s w of
       (Inl (c, e), s1, w1) \<Rightarrow> (e \<noteq> ErrBadConn, (Some e, s1, pushConn c (Some e) w1))
     | (Inr (c, st), s1, w1) \<Rightarrow> (True, (None, s1, pushConn (Some c) None w1)))"

definition DB_Prepare_run :: "env \<Rightarrow> string \<Rightarrow> world \<Rightarrow> nat \<times> (err \<times> Stmt \<times> world)" where
  "DB_Prepare_run env query w = for_loop 10 (DB_Prepare_body env query) (None, newStmt query, w)"

definition DB_Prepare :: "env \<Rightarrow> string \<Rightarrow> world \<Rightarrow> (Stmt \<times> err) \<times> world" where
  "DB_Prepare env query w =
     (case snd (DB_Prepare_run env query w) of (e, s, w1) \<Rightarrow> ((s, e), w1))"

subsection \<open>\<open>DB.begin\<close> and \<open>DB.Begin\<close>\<close>

definition DB_begin :: "env \<Rightarrow> world \<Rightarrow> (nat option \<times> err) \<times> world" where
  "DB_begin env w =
     (case popConn env w of
        (Inl e, w1) \<Rightarrow> ((None, Some e), w1)
      | (Inr c, w1) \<Rightarrow>
          (let w2 = emit (Lock c) w1;
               (r, w3) = send env c Begin w2;
               w4 = emit (Unlock c) w3
           in ((Some c, rerr r), w4)))"

definition DB_Begin_body :: "env \<Rightarrow> nat \<Rightarrow> err \<times> world \<Rightarrow> bool \<times> (err \<times> world)" where
  "DB_Begin_body env t = (\<lambda>(e0, w).
     case DB_begin env w of
       ((co, None), w1) \<Rightarrow> (True, (None, w1\<lparr>txs := (txs w1)(t := (txs w1 t)\<lparr>tx_conn := co\<rparr>)\<rparr>))
     | ((co, Some e), w1) \<Rightarrow> (e \<noteq> ErrBadConn, (Some e, pushConn co (Some e) w1)))"

text \<open>\<open>t = new(Tx)\<close>, \<open>t.done = false\<close>: a fresh \<open>Tx\<close> at the next free address.\<close>

definition newTx :: "world \<Rightarrow> nat \<times> world" where
  "newTx w =
     (nextTx w,
      w\<lparr>txs := (txs w)(nextTx w := \<lparr>tx_done = False, tx_conn = None\<rparr>), nextTx := Suc (nextTx w)\<rparr>)"

definition DB_Begin_run :: "env \<Rightarrow> world \<Rightarrow> nat \<times> (err \<times> world)" where
  "DB_Begin_run env w =
     (let (t, w0) = newTx w
      in for_loop 10 (DB_Begin_body env t) (None, w0))"

text \<open>\<open>DB.Begin\<close> returns the address of the new \<open>Tx\<close> (never \<open>nil\<close>) and the error.\<close>

definition DB_Begin :: "env \<Rightarrow> world \<Rightarrow> (nat \<times> err) \<times> world" where
  "DB_Begin env w = (case snd (DB_Begin_run env w) of (e, w1) \<Rightarrow> ((nextTx w, e), w1))"

subsection \<open>\<open>Stmt\<close>: transactional path, pool path, \<open>Close\<close>\<close>

text \<open>
  A call through a \<open>nil\<close> pointer panics: the operations that dereference \<open>tx.conn\<close> or
  \<open>txStmt\<close> return \<open>None\<close> for the panic.
\<close>

definition txClose :: "env \<Rightarrow> Stmt \<Rightarrow> world \<Rightarrow> (err \<times> Stmt \<times> world) option" where
  "txClose env s w =
     (case tx s of
        None \<Rightarrow> None
      | Some t \<Rightarrow>
          (case tx_conn (txs w t) of
             None \<Rightarrow> None
           | Some c \<Rightarrow>
               (let w1 = emit (Lock c) w
                in if \<not> closed (heap w1 c) then
                     (case txStmt s of
                        None \<Rightarrow> None
                      | Some st \<Rightarrow>
                          (let (r, w2) = send env c (StmtClose st) w1
                           in Some (rerr r, s\<lparr>tx := None\<rparr>, emit (Unlock c) w2)))
                   else Some (None, s\<lparr>tx := None\<rparr>, emit (Unlock c) w1))))"

definition txExec ::
  "env \<Rightarrow> arg list \<Rightarrow> Stmt \<Rightarrow> world \<Rightarrow> ((nat option \<times> err) \<times> Stmt \<times> world) option" where
  "txExec env args s w =
     (case tx s of
        None \<Rightarrow> None
      | Some t \<Rightarrow>
          if tx_done (txs w t) then
            (case txClose env s w of
               None \<Rightarrow> None
             | Some (e, s1, w1) \<Rightarrow> Some ((None, Some ErrTxDone), s1, w1))
          else
            (case tx_conn (txs w t) of
               None \<Rightarrow> None
             | Some c \<Rightarrow>
                 (case txStmt s of
                    None \<Rightarrow> None
                  | Some st \<Rightarrow>
                      (let w1 = emit (Lock c) w;
                           (r, w2) = send env c (StmtExec st args) w1
                       in Some ((rptr r, rerr r), s, emit (Unlock c) w2)))))"


definition Stmt_exec :: "env \<Rightarrow> arg list \<Rightarrow> Stmt \<Rightarrow> world \<Rightarrow> (nat option \<times> err) \<times> Stmt \<times> world" where
  "Stmt_exec env args s w =
     (case Stmt_prepare env (str s) s w of
        (Inl (c, e), s1, w1) \<Rightarrow> ((None, Some e), s1, pushConn c (Some e) w1)
      | (Inr (c, st), s1, w1) \<Rightarrow>
          (let w2 = emit (Lock c) w1;
               (r, w3) = send env c (StmtExec st args) w2;
               w4 = emit (Unlock c) w3
           in ((rptr r, rerr r), s1, pushConn (Some c) (rerr r) w4)))"

definition Stmt_query :: "env \<Rightarrow> arg list \<Rightarrow> Stmt \<Rightarrow> world \<Rightarrow> (nat option \<times> err) \<times> Stmt \<times> world" where
  "Stmt_query env args s w =
     (case Stmt_prepare env (str s) s w of
        (Inl (c, e), s1, w1) \<Rightarrow> ((None, Some e), s1, pushConn c (Some e) w1)
      | (Inr (c, st), s1, w1) \<Rightarrow>
          (let w2 = emit (Lock c) w1;
               (r, w3) = send env c (StmtQuery st args) w2;
               w4 = emit (Unlock c) w3
           in ((rptr r, rerr r), s1, pushConn (Some c) (rerr r) w4)))"

definition Stmt_Exec_body ::
  "env \<Rightarrow> arg list \<Rightarrow> (nat option \<times> err) \<times> Stmt \<times> world \<Rightarrow> bool \<times> ((nat option \<times> err) \<times> Stmt \<times> world)" where
  "Stmt_Exec_body env args = (\<lambda>(res0, s, w).
     let ((r, e), s1, w1) = Stmt_exec env args s w
     in (e \<noteq> Some ErrBadConn, ((r, e), s1, w1)))"


text \<open>The pool-mode loops of \<open>Stmt.Exec\<close> and \<open>Stmt.Query\<close> (the second half of each).\<close>

definition Stmt_Exec_pool ::
  "env \<Rightarrow> arg list \<Rightarrow> (nat option \<times> err) \<times> Stmt \<times> world \<Rightarrow> (nat option \<times> err) \<times> Stmt \<times> world" where
  "Stmt_Exec_pool env args st0 = snd (for_loop 10 (Stmt_Exec_body env args) st0)"


definition Stmt_Exec ::
  "env \<Rightarrow> arg list \<Rightarrow> Stmt \<Rightarrow> world \<Rightarrow> ((nat option \<times> err) \<times> Stmt \<times> world) option" where
  "Stmt_Exec env args s w =
     (case tx s of
        Some t \<Rightarrow>
          (case txExec env args s w of
             None \<Rightarrow> None
           | Some ((r, e), s1, w1) \<Rightarrow>
               if e = None then Some ((r, e), s1, w1)
               else if e \<noteq> Some ErrTxDone then Some ((r, e), s1, w1)
               else Some (Stmt_Exec_pool env args ((r, e), s1, w1)))
      | None \<Rightarrow> Some (Stmt_Exec_pool env args ((None, None), s, w)))"


text \<open>
  \<open>Stmt.Close\<close> ranges over the map \<open>s.stmts\<close>. Go leaves the order of a map range
  unspecified, so the order is a parameter: a list of connection addresses. The
  entries visited are those of the listed keys that the map holds; for a list that
  enumerates the keys of the map once each, these are all entries.
\<close>

fun close_entries :: "env \<Rightarrow> (nat \<times> nat) list \<Rightarrow> err \<Rightarrow> world \<Rightarrow> err \<times> world" where
  "close_entries env [] e w = (e, w)"
| "close_entries env ((c, st) # es) e w =
     (let w1 = emit (Lock c) w;
          (e1, w2) = (if \<not> closed (heap w1 c)
                      then (let (r, w') = send env c (StmtClose st) w1 in (rerr r, w'))
                      else (e, w1));
          w3 = emit (Unlock c) w2
      in close_entries env es e1 w3)"

definition entries :: "Stmt \<Rightarrow> nat list \<Rightarrow> (nat \<times> nat) list" where
  "entries s order = List.map_filter (\<lambda>c. map_option (Pair c) (stmts s c)) order"

definition Stmt_Close :: "env \<Rightarrow> nat list \<Rightarrow> Stmt \<Rightarrow> world \<Rightarrow> (err \<times> Stmt \<times> world) option" where
  "Stmt_Close env order s w =
     (case tx s of
        Some t \<Rightarrow> txClose env s w
      | None \<Rightarrow>
          (let (e, w1) = close_entries env (entries s order) None w
           in Some (e, s\<lparr>stmts := Map.empty\<rparr>, w1)))"

subsection \<open>\<open>Tx\<close>\<close>

text \<open>
  The receiver \<open>t\<close> is the address of a \<open>Tx\<close>. A call on a \<open>Tx\<close> that is not done and
  whose \<open>conn\<close> is \<open>nil\<close> (the \<open>Tx\<close> of a failed \<open>Begin\<close>) panics: \<open>None\<close>.
\<close>

definition Tx_Exec ::
  "env \<Rightarrow> nat \<Rightarrow> string \<Rightarrow> arg list \<Rightarrow> world \<Rightarrow> ((nat option \<times> err) \<times> world) option" where
  "Tx_Exec env t query args w =
     (if tx_done (txs w t) then Some ((None, Some ErrTxDone), w)
      else case tx_conn (txs w t) of
             None \<Rightarrow> None
           | Some c \<Rightarrow>
               (let w1 = emit (Lock c) w;
                    (r, w2) = send env c (Exec query args) w1
                in Some ((rptr r, rerr r), emit (Unlock c) w2)))"

definition Tx_Query ::
  "env \<Rightarrow> nat \<Rightarrow> string \<Rightarrow> arg list \<Rightarrow> world \<Rightarrow> ((nat option \<times> err) \<times> world) option" where
  "Tx_Query env t query args w =
     (if tx_done (txs w t) then Some ((None, Some ErrTxDone), w)
      else case tx_conn (txs w t) of
             None \<Rightarrow> None
           | Some c \<Rightarrow>
               (let w1 = emit (Lock c) w;
                    (r, w2) = send env c (Query query args) w1
                in Some ((rptr r, rerr r), emit (Unlock c) w2)))"

definition Tx_Prepare ::
  "env \<Rightarrow> nat \<Rightarrow> string \<Rightarrow> world \<Rightarrow> ((Stmt option \<times> err) \<times> world) option" where
  "Tx_Prepare env t query w =
     (if tx_done (txs w t) then Some ((None, Some ErrTxDone), w)
      else case tx_conn (txs w t) of
             None \<Rightarrow> None
           | Some c \<Rightarrow>
               (let s = newStmt query;
                    w1 = emit (Lock c) w;
                    (r, w2) = send env c (Prepare query) w1;
                    w3 = emit (Unlock c) w2
                in case rerr r of
                     Some e \<Rightarrow> Some ((None, Some e), w3)
                   | None \<Rightarrow> Some ((Some (s\<lparr>txStmt := Some (rval r), tx := Some t\<rparr>), None), w3)))"

definition Tx_Commit :: "env \<Rightarrow> nat \<Rightarrow> world \<Rightarrow> (err \<times> world) option" where
  "Tx_Commit env t w =
     (if tx_done (txs w t) then Some (Some ErrTxDone, w)
      else case tx_conn (txs w t) of
             None \<Rightarrow> None
           | Some c \<Rightarrow>
               (let w1 = emit (Lock c) w;
                    (r, w2) = send env c Commit w1;
                    w3 = emit (Unlock c) w2;
                    w4 = pushConn (Some c) (rerr r) w3
                in Some (rerr r, w4\<lparr>txs := (txs w4)(t := (txs w4 t)\<lparr>tx_done := True\<rparr>)\<rparr>)))"

definition Tx_Rollback :: "env \<Rightarrow> nat \<Rightarrow> world \<Rightarrow> (err \<times> world) option" where
  "Tx_Rollback env t w =
     (if tx_done (txs w t) then Some (Some ErrTxDone, w)
      else case tx_conn (txs w t) of
             None \<Rightarrow> None
           | Some c \<Rightarrow>
               (let w1 = emit (Lock c) w;
                    (r, w2) = send env c Commit w1;
                    w3 = emit (Unlock c) w2;
                    w4 = pushConn (Some c) (rerr r) w3
                in Some (rerr r, w4\<lparr>txs := (txs w4)(t := (txs w4 t)\<lparr>tx_done := True\<rparr>)\<rparr>)))"

subsection \<open>Concrete environments and worlds\<close>

text \<open>
  Environments and worlds at which the properties below are instantiated. \<open>env_ok\<close> is a
  session that answers every command with success, reports no open transaction and
  autocommit on, and returns the command's number as the handle.
\<close>

definition env_ok :: env where
  "env_ok = (\<lambda>i x. \<lparr>rerr = None, rval = i, rtrans = False, rauto = True\<rparr>)"

text \<open>A session whose \<open>commit\<close> fails with \<open>ErrBadConn\<close>.\<close>

definition env_commit_bad :: env where
  "env_commit_bad = (\<lambda>i x. \<lparr>rerr = (if x = Commit then Some ErrBadConn else None), rval = i,
                             rtrans = False, rauto = True\<rparr>)"

text \<open>
  The world after \<open>NewDB(.., 1)\<close> and a successful \<open>DB.Begin\<close> (the \<open>Tx\<close> is at address 0
  and pins connection 0), and the world after a \<open>Commit\<close> of that transaction.
\<close>

definition begun :: world where
  "begun = snd (DB_Begin env_ok (NewDB 1))"

definition committed :: world where
  "committed = (case Tx_Commit env_ok 0 begun of Some (e, w) \<Rightarrow> w | None \<Rightarrow> begun)"

text \<open>
  A session on a server with the default settings, on which the statement executed
  turns autocommit off and leaves a transaction open (a procedure call, say): the
  handshake reports no transaction and autocommit on; after the statement, and at a
  ping while the transaction is open, the status is "in a transaction, autocommit
  off"; a rollback ends the transaction and leaves autocommit off. \<open>dirty_idle\<close> is
  the world after \<open>NewDB(.., 1)\<close> and one \<open>DB.Exec\<close> of that statement.
\<close>

definition env_dirty :: env where
  "env_dirty = (\<lambda>i x.
     \<lparr>rerr = None, rval = i,
      rtrans = (case x of Exec q a \<Rightarrow> True | Ping \<Rightarrow> True | _ \<Rightarrow> False),
      rauto = (case x of Exec q a \<Rightarrow> False | Ping \<Rightarrow> False | Rollback \<Rightarrow> False | _ \<Rightarrow> True)\<rparr>)"

definition dirty_idle :: world where
  "dirty_idle = snd (DB_Exec env_dirty ''call p()'' [] (NewDB 1))"


text \<open>A server that refuses every connect with an error other than \<open>ErrBadConn\<close>.\<close>

definition env_connect_fails :: env where
  "env_connect_fails = (\<lambda>i x.
     \<lparr>rerr = (if x = Connect then Some (ErrOther 1) else None), rval = i,
      rtrans = False, rauto = True\<rparr>)"






text \<open>
  The run \<open>NewDB(.., 1)\<close>, \<open>DB.Prepare(query)\<close>, \<open>Stmt.Exec(a1)\<close>, \<open>Stmt.Exec(a2)\<close>: the
  three errors returned and the final world. \<open>is_Prepare\<close> and \<open>is_StmtExec\<close> pick the
  prepares and the statement executions out of a trace. \<open>prepared\<close> is the result of the
  \<open>DB.Prepare\<close> alone, on \<open>env_ok\<close>.
\<close>

fun is_Prepare :: "event \<Rightarrow> bool" where
  "is_Prepare (Call c (Prepare q)) = True"
| "is_Prepare _ = False"

fun is_StmtExec :: "event \<Rightarrow> bool" where
  "is_StmtExec (Call c (StmtExec st a)) = True"
| "is_StmtExec _ = False"

definition prepare_exec_exec ::
  "env \<Rightarrow> string \<Rightarrow> arg list \<Rightarrow> arg list \<Rightarrow> (err \<times> err \<times> err \<times> world) option" where
  "prepare_exec_exec env query a1 a2 =
     (case DB_Prepare env query (NewDB 1) of
        ((s, e0), w1) \<Rightarrow>
          (case Stmt_Exec env a1 s w1 of
             None \<Rightarrow> None
           | Some ((r1, e1), s2, w2) \<Rightarrow>
               (case Stmt_Exec env a2 s2 w2 of
                  None \<Rightarrow> None
                | Some ((r2, e2), s3, w3) \<Rightarrow> Some (e0, e1, e2, w3))))"

definition prepared :: "(Stmt \<times> err) \<times> world" where
  "prepared = DB_Prepare env_ok ''select 1'' (NewDB 1)"

text \<open>
  A session on which closing the server statement with handle 1 fails. \<open>cached_twice\<close>
  is the \<open>Stmt\<close> and the world after \<open>NewDB(.., 2)\<close>, \<open>DB.Prepare\<close> (on connection 0),
  \<open>DB.Begin\<close> (which pins connection 0), \<open>Stmt.Exec\<close> (which has to prepare again, on
  the new connection 1) and \<open>Tx.Commit\<close>: the statement is then cached on both
  connections, and both are idle and open.
\<close>

definition env_close_fails :: env where
  "env_close_fails = (\<lambda>i x.
     \<lparr>rerr = (if x = StmtClose 1 then Some (ErrOther 1) else None), rval = i,
      rtrans = False, rauto = True\<rparr>)"

definition cached_twice :: "(Stmt \<times> world) option" where
  "cached_twice =
     (case DB_Prepare env_close_fails ''select 1'' (NewDB 2) of
        ((s, e0), w1) \<Rightarrow>
          (case DB_Begin env_close_fails w1 of
             ((t, e1), w2) \<Rightarrow>
               (case Stmt_Exec env_close_fails [] s w2 of
                  None \<Rightarrow> None
                | Some (r, s3, w3) \<Rightarrow>
                    (case Tx_Commit env_close_fails t w3 of
                       None \<Rightarrow> None
                     | Some (e4, w4) \<Rightarrow> Some (s3, w4)))))"

definition twice_stmt :: Stmt where
  "twice_stmt = (case cached_twice of Some (s, w) \<Rightarrow> s | None \<Rightarrow> newStmt ''select 1'')"

definition twice_world :: world where
  "twice_world = (case cached_twice of Some (s, w) \<Rightarrow> w | None \<Rightarrow> NewDB 2)"



section \<open>Properties\<close>

lemma emit_fields [simp]:
  "conns (emit e w) = conns w" "maxIdleConns (emit e w) = maxIdleConns w"
  "heap (emit e w) = heap w" "txs (emit e w) = txs w" "clock (emit e w) = clock w"
  "nextConn (emit e w) = nextConn w" "nextTx (emit e w) = nextTx w"
  "trace (emit e w) = trace w @ [e]"
  by (simp_all add: emit_def)

lemma dbConn_Close_fields [simp]:
  "conns (dbConn_Close c w) = conns w" "maxIdleConns (dbConn_Close c w) = maxIdleConns w"
  "txs (dbConn_Close c w) = txs w" "clock (dbConn_Close c w) = clock w"
  "nextConn (dbConn_Close c w) = nextConn w" "nextTx (dbConn_Close c w) = nextTx w"
  by (simp_all add: dbConn_Close_def)

lemma dbConn_Close_closed [simp]: "closed (heap (dbConn_Close c w) c)"
  by (simp add: dbConn_Close_def)

lemmas evals = NewDB_def emit_def send_def dbConn_Close_def newConn_def tryReuse_def popConn_def
  pushConn_def DB_begin_def DB_Begin_body_def newTx_def DB_Begin_run_def DB_Begin_def Let_def
  env_ok_def
  eval_nat_numeral

subsection \<open>Release to the pool\<close>

lemma pushConn_bad:
  "pushConn co (Some ErrBadConn) w =
     (case co of None \<Rightarrow> w | Some c \<Rightarrow> emit (Unlock c) (dbConn_Close c (emit (Lock c) w)))"
  by (simp add: pushConn_def)

lemma pushConn_room:
  "e \<noteq> Some ErrBadConn \<Longrightarrow> int (length (conns w)) < maxIdleConns w \<Longrightarrow>
   pushConn co e w = emit PoolUnlock ((emit PoolLock w)\<lparr>conns := conns w @ [co]\<rparr>)"
  by (simp add: pushConn_def Let_def)

lemma pushConn_full:
  "e \<noteq> Some ErrBadConn \<Longrightarrow> \<not> int (length (conns w)) < maxIdleConns w \<Longrightarrow>
   pushConn co e w =
     (case co of None \<Rightarrow> emit PoolUnlock (emit PoolLock w)
      | Some c \<Rightarrow> emit (Unlock c) (dbConn_Close c (emit (Lock c) (emit PoolUnlock (emit PoolLock w)))))"
  by (simp add: pushConn_def Let_def)

lemma pushConn_frame [simp]:
  "maxIdleConns (pushConn co e w) = maxIdleConns w"
  "txs (pushConn co e w) = txs w"
  "nextTx (pushConn co e w) = nextTx w"
  "nextConn (pushConn co e w) = nextConn w"
  "clock (pushConn co e w) = clock w"
  by (cases "e = Some ErrBadConn"; cases "int (length (conns w)) < maxIdleConns w"; cases co;
      simp add: pushConn_bad pushConn_room pushConn_full)+

lemma pushConn_cases:
  "(e = Some ErrBadConn \<longrightarrow>
      conns (pushConn co e w) = conns w \<and>
      (\<forall>c. co = Some c \<longrightarrow> closed (heap (pushConn co e w) c)))
   \<and> (e \<noteq> Some ErrBadConn \<and> int (length (conns w)) < maxIdleConns w \<longrightarrow>
      conns (pushConn co e w) = conns w @ [co] \<and> heap (pushConn co e w) = heap w)
   \<and> (e \<noteq> Some ErrBadConn \<and> \<not> int (length (conns w)) < maxIdleConns w \<longrightarrow>
      conns (pushConn co e w) = conns w \<and>
      (\<forall>c. co = Some c \<longrightarrow> closed (heap (pushConn co e w) c)))"
  by (cases "e = Some ErrBadConn"; cases "int (length (conns w)) < maxIdleConns w"; cases co)
     (simp_all add: pushConn_bad pushConn_room pushConn_full)

lemma dbConn_Close_trace:
  "trace (dbConn_Close c w) = trace w @ (if closed (heap w c) then [] else [Call c Close])"
  "heap (dbConn_Close c w) = (heap w)(c := (heap w c)\<lparr>closed := True\<rparr>)"
  by (auto simp add: dbConn_Close_def)

lemma pushConn_effects:
  "(e = Some ErrBadConn \<longrightarrow>
      trace (pushConn co e w) =
        trace w @ (case co of None \<Rightarrow> []
                   | Some c \<Rightarrow> Lock c # (if closed (heap w c) then [] else [Call c Close])
                                @ [Unlock c])
      \<and> heap (pushConn co e w) =
          (case co of None \<Rightarrow> heap w
           | Some c \<Rightarrow> (heap w)(c := (heap w c)\<lparr>closed := True\<rparr>)))
   \<and> (e \<noteq> Some ErrBadConn \<and> int (length (conns w)) < maxIdleConns w \<longrightarrow>
      trace (pushConn co e w) = trace w @ [PoolLock, PoolUnlock])
   \<and> (e \<noteq> Some ErrBadConn \<and> \<not> int (length (conns w)) < maxIdleConns w \<longrightarrow>
      trace (pushConn co e w) =
        trace w @ [PoolLock, PoolUnlock]
          @ (case co of None \<Rightarrow> []
             | Some c \<Rightarrow> Lock c # (if closed (heap w c) then [] else [Call c Close])
                          @ [Unlock c])
      \<and> heap (pushConn co e w) =
          (case co of None \<Rightarrow> heap w
           | Some c \<Rightarrow> (heap w)(c := (heap w c)\<lparr>closed := True\<rparr>)))"
  by (cases "e = Some ErrBadConn"; cases "int (length (conns w)) < maxIdleConns w"; cases co)
     (simp_all add: pushConn_bad pushConn_room pushConn_full dbConn_Close_trace)

text \<open>
  Claim C4. For every call \<open>pushConn(conn, err)\<close>: with \<open>err == ErrBadConn\<close> the
  connection is closed and the idle list is unchanged; otherwise the connection is
  appended to the idle list (and nothing is closed) when the list is shorter than
  \<open>maxIdleConns\<close>, and it is closed, the list unchanged, when it is not. Closing is
  what \<open>dbConn.Close\<close> does under the lock of the connection: the trace gains the lock,
  the \<open>Close\<close> sent to the session unless the wrapper was closed already, and the
  unlock, and in the store only the \<open>closed\<close> flag of that connection changes, to
  true; for a \<open>nil\<close> connection nothing is locked or sent. The idle list is read and
  changed between the lock and the unlock of the pool, and the pool is not locked at
  all for \<open>ErrBadConn\<close>. Hence a list no longer than \<open>maxIdleConns\<close> stays so (and the
  empty list of \<open>NewDB\<close> is so for every \<open>maxIdleConns \<ge> 0\<close>), and with
  \<open>maxIdleConns = 0\<close> every released connection is closed, its session being sent
  \<open>Close\<close> unless it was closed before, and none is kept.
\<close>

theorem pushConn_idle_cap:
  "(e = Some ErrBadConn \<longrightarrow>
      conns (pushConn co e w) = conns w \<and>
      (\<forall>c. co = Some c \<longrightarrow> closed (heap (pushConn co e w) c)))
   \<and> (e \<noteq> Some ErrBadConn \<and> int (length (conns w)) < maxIdleConns w \<longrightarrow>
      conns (pushConn co e w) = conns w @ [co] \<and> heap (pushConn co e w) = heap w)
   \<and> (e \<noteq> Some ErrBadConn \<and> \<not> int (length (conns w)) < maxIdleConns w \<longrightarrow>
      conns (pushConn co e w) = conns w \<and>
      (\<forall>c. co = Some c \<longrightarrow> closed (heap (pushConn co e w) c)))
   \<and> maxIdleConns (pushConn co e w) = maxIdleConns w
   \<and> (int (length (conns w)) \<le> maxIdleConns w \<longrightarrow>
      int (length (conns (pushConn co e w))) \<le> maxIdleConns (pushConn co e w))
   \<and> (0 \<le> m \<longrightarrow> int (length (conns (NewDB m))) \<le> maxIdleConns (NewDB m))
   \<and> (maxIdleConns w = 0 \<longrightarrow>
      conns (pushConn co e w) = conns w \<and>
      (\<forall>c. co = Some c \<longrightarrow> closed (heap (pushConn co e w) c)))
   \<and> (e = Some ErrBadConn \<longrightarrow>
      trace (pushConn co e w) =
        trace w @ (case co of None \<Rightarrow> []
                   | Some c \<Rightarrow> Lock c # (if closed (heap w c) then [] else [Call c Close])
                                @ [Unlock c])
      \<and> heap (pushConn co e w) =
          (case co of None \<Rightarrow> heap w
           | Some c \<Rightarrow> (heap w)(c := (heap w c)\<lparr>closed := True\<rparr>)))
   \<and> (e \<noteq> Some ErrBadConn \<and> int (length (conns w)) < maxIdleConns w \<longrightarrow>
      trace (pushConn co e w) = trace w @ [PoolLock, PoolUnlock])
   \<and> (e \<noteq> Some ErrBadConn \<and> \<not> int (length (conns w)) < maxIdleConns w \<longrightarrow>
      trace (pushConn co e w) =
        trace w @ [PoolLock, PoolUnlock]
          @ (case co of None \<Rightarrow> []
             | Some c \<Rightarrow> Lock c # (if closed (heap w c) then [] else [Call c Close])
                          @ [Unlock c])
      \<and> heap (pushConn co e w) =
          (case co of None \<Rightarrow> heap w
           | Some c \<Rightarrow> (heap w)(c := (heap w c)\<lparr>closed := True\<rparr>)))
   \<and> (maxIdleConns w = 0 \<and> co = Some c \<longrightarrow>
      filter (\<lambda>ev. ev = Call c Close) (trace (pushConn co e w)) =
        filter (\<lambda>ev. ev = Call c Close) (trace w)
          @ (if closed (heap w c) then [] else [Call c Close]))
   \<and> clock (pushConn co e w) = clock w
   \<and> txs (pushConn co e w) = txs w"
proof -
  have cap: "int (length (conns w)) \<le> maxIdleConns w \<longrightarrow>
      int (length (conns (pushConn co e w))) \<le> maxIdleConns w"
    using pushConn_cases [of e co w] by (cases "e = Some ErrBadConn") auto
  have zero: "maxIdleConns w = 0 \<longrightarrow>
      conns (pushConn co e w) = conns w \<and>
      (\<forall>c. co = Some c \<longrightarrow> closed (heap (pushConn co e w) c))"
    using pushConn_cases [of e co w] by (cases "e = Some ErrBadConn") auto
  have new: "0 \<le> m \<longrightarrow> int (length (conns (NewDB m))) \<le> maxIdleConns (NewDB m)"
    by (simp add: NewDB_def)
  have zclose: "maxIdleConns w = 0 \<and> co = Some c \<longrightarrow>
      filter (\<lambda>ev. ev = Call c Close) (trace (pushConn co e w)) =
        filter (\<lambda>ev. ev = Call c Close) (trace w)
          @ (if closed (heap w c) then [] else [Call c Close])"
    using pushConn_effects [of e co w] by (cases "e = Some ErrBadConn") auto
  show ?thesis
    using pushConn_cases [of e co w] pushConn_effects [of e co w] cap zero new zclose
    by simp
qed

theorem pushConn_idle_cap_witness:
  "conns (pushConn (Some 0) (Some ErrBadConn) (NewDB 1)) = []
   \<and> closed (heap (pushConn (Some 0) (Some ErrBadConn) (NewDB 1)) 0)
   \<and> trace (pushConn (Some 0) (Some ErrBadConn) (NewDB 1)) = [Lock 0, Call 0 Close, Unlock 0]
   \<and> conns (pushConn (Some 0) None (NewDB 1)) = [Some 0]
   \<and> \<not> closed (heap (pushConn (Some 0) None (NewDB 1)) 0)
   \<and> trace (pushConn (Some 0) None (NewDB 1)) = [PoolLock, PoolUnlock]
   \<and> conns (pushConn (Some 0) (Some (ErrOther 7)) (NewDB 0)) = []
   \<and> closed (heap (pushConn (Some 0) (Some (ErrOther 7)) (NewDB 0)) 0)
   \<and> trace (pushConn (Some 0) (Some (ErrOther 7)) (NewDB 0))
       = [PoolLock, PoolUnlock, Lock 0, Call 0 Close, Unlock 0]
   \<and> int (length (conns (pushConn (Some 0) None (NewDB 1)))) \<le> 1"
  using pushConn_idle_cap [of "Some ErrBadConn" "Some 0" "NewDB 1" 1 0]
    pushConn_idle_cap [of None "Some 0" "NewDB 1" 1 0]
    pushConn_idle_cap [of "Some (ErrOther 7)" "Some 0" "NewDB 0" 0 0]
  by (simp add: NewDB_def)

subsection \<open>Transactions\<close>

lemma begun_facts:
  "\<not> tx_done (txs begun 0)" "tx_conn (txs begun 0) = Some 0" "conns begun = []"
  "maxIdleConns begun = 1" "clock begun = 2" "\<not> closed (heap begun 0)"
  by (simp_all add: begun_def evals)

lemma committed_done: "tx_done (txs committed 0)"
  by (simp add: committed_def Tx_Commit_def begun_def evals)

text \<open>
  Claim C5. For a \<open>Tx\<close> that is not done (and pins a connection \<open>c\<close>), \<open>Tx.Commit\<close>
  locks \<open>c\<close>, sends \<open>Commit\<close>, unlocks \<open>c\<close>, and changes nothing else up to there; then it
  is one \<open>pushConn(c, err)\<close> with the error \<open>err\<close> of the commit, then \<open>done = true\<close>,
  and it returns \<open>err\<close>. This holds whatever the commit answers. With
  \<open>err == ErrBadConn\<close> the connection ends closed and outside the idle list; otherwise
  it is appended to the idle list if there is room and closed if not.
\<close>

theorem Tx_Commit_release:
  assumes "\<not> tx_done (txs w t)" and "tx_conn (txs w t) = Some c"
  shows "let e = rerr (env (clock w) Commit);
             w3 = emit (Unlock c) (snd (send env c Commit (emit (Lock c) w)));
             w4 = pushConn (Some c) e w3;
             w5 = w4\<lparr>txs := (txs w4)(t := (txs w4 t)\<lparr>tx_done := True\<rparr>)\<rparr>
         in Tx_Commit env t w = Some (e, w5)
          \<and> trace w3 = trace w @ [Lock c, Call c Commit, Unlock c]
          \<and> conns w3 = conns w \<and> maxIdleConns w3 = maxIdleConns w
          \<and> closed (heap w3 c) = closed (heap w c)
          \<and> tx_done (txs w5 t) \<and> tx_conn (txs w5 t) = Some c
          \<and> (e = Some ErrBadConn \<longrightarrow> closed (heap w5 c) \<and> conns w5 = conns w)
          \<and> (e \<noteq> Some ErrBadConn \<and> int (length (conns w)) < maxIdleConns w \<longrightarrow>
               conns w5 = conns w @ [Some c])
          \<and> (e \<noteq> Some ErrBadConn \<and> \<not> int (length (conns w)) < maxIdleConns w \<longrightarrow>
               closed (heap w5 c) \<and> conns w5 = conns w)"
proof -
  define e where "e = rerr (env (clock w) Commit)"
  define w3 where "w3 = emit (Unlock c) (snd (send env c Commit (emit (Lock c) w)))"
  define w4 where "w4 = pushConn (Some c) e w3"
  define w5 where "w5 = w4\<lparr>txs := (txs w4)(t := (txs w4 t)\<lparr>tx_done := True\<rparr>)\<rparr>"
  have w3: "trace w3 = trace w @ [Lock c, Call c Commit, Unlock c]" "conns w3 = conns w"
    "maxIdleConns w3 = maxIdleConns w" "closed (heap w3 c) = closed (heap w c)" "txs w3 = txs w"
    by (simp_all add: w3_def send_def Let_def)
  have run: "Tx_Commit env t w = Some (e, w5)"
    using assms by (simp add: Tx_Commit_def w5_def w4_def w3_def e_def send_def Let_def)
  have tx5: "tx_done (txs w5 t)" "tx_conn (txs w5 t) = Some c"
    using assms by (simp_all add: w5_def w4_def w3)
  have h5: "heap w5 = heap w4" "conns w5 = conns w4"
    by (simp_all add: w5_def)
  have push: "(e = Some ErrBadConn \<longrightarrow> closed (heap w5 c) \<and> conns w5 = conns w)
      \<and> (e \<noteq> Some ErrBadConn \<and> int (length (conns w)) < maxIdleConns w \<longrightarrow>
               conns w5 = conns w @ [Some c])
      \<and> (e \<noteq> Some ErrBadConn \<and> \<not> int (length (conns w)) < maxIdleConns w \<longrightarrow>
               closed (heap w5 c) \<and> conns w5 = conns w)"
    using pushConn_cases [of e "Some c" w3] by (simp add: h5 w4_def w3)
  show ?thesis
    unfolding Let_def e_def [symmetric] w3_def [symmetric] w4_def [symmetric] w5_def [symmetric]
    using run w3 tx5 push by simp
qed

theorem Tx_Commit_release_witness:
  "\<not> tx_done (txs begun 0) \<and> tx_conn (txs begun 0) = Some 0
   \<and> (\<exists>w'. Tx_Commit env_commit_bad 0 begun = Some (Some ErrBadConn, w')
          \<and> tx_done (txs w' 0) \<and> closed (heap w' 0) \<and> conns w' = [])
   \<and> (\<exists>w'. Tx_Commit env_ok 0 begun = Some (None, w')
          \<and> tx_done (txs w' 0) \<and> conns w' = [Some 0])"
  using Tx_Commit_release [of begun 0 0 env_commit_bad] Tx_Commit_release [of begun 0 0 env_ok]
    begun_facts
  by (simp add: Let_def env_commit_bad_def env_ok_def)

text \<open>
  Claim C8. On a \<open>Tx\<close> with \<open>done == true\<close>, each of \<open>Exec\<close>, \<open>Query\<close>, \<open>Prepare\<close>,
  \<open>Commit\<close> and \<open>Rollback\<close> returns \<open>ErrTxDone\<close> (with a \<open>nil\<close> value) and leaves the
  whole world as it was: no command, no lock, no change of the pool or of the \<open>Tx\<close>.
\<close>

theorem Tx_done_gate:
  assumes "tx_done (txs w t)"
  shows "Tx_Exec env t query args w = Some ((None, Some ErrTxDone), w)
       \<and> Tx_Query env t query args w = Some ((None, Some ErrTxDone), w)
       \<and> Tx_Prepare env t query w = Some ((None, Some ErrTxDone), w)
       \<and> Tx_Commit env t w = Some (Some ErrTxDone, w)
       \<and> Tx_Rollback env t w = Some (Some ErrTxDone, w)"
  using assms by (simp add: Tx_Exec_def Tx_Query_def Tx_Prepare_def Tx_Commit_def Tx_Rollback_def)

theorem Tx_done_gate_witness:
  "tx_done (txs committed 0)
   \<and> Tx_Exec env_ok 0 ''select 1'' [] committed = Some ((None, Some ErrTxDone), committed)
   \<and> Tx_Query env_ok 0 ''select 1'' [] committed = Some ((None, Some ErrTxDone), committed)
   \<and> Tx_Prepare env_ok 0 ''select 1'' committed = Some ((None, Some ErrTxDone), committed)
   \<and> Tx_Commit env_ok 0 committed = Some (Some ErrTxDone, committed)
   \<and> Tx_Rollback env_ok 0 committed = Some (Some ErrTxDone, committed)"
  using Tx_done_gate [of committed 0 env_ok "''select 1''" "[]"] committed_done by simp

lemma Tx_Rollback_is_Commit: "Tx_Rollback env t w = Tx_Commit env t w"
  by (simp add: Tx_Rollback_def Tx_Commit_def)

text \<open>
  Claim C1. The claim asks that \<open>Tx.Rollback\<close> send the session's rollback command.
  The code sends \<open>Commit\<close>: after \<open>NewDB(.., 1)\<close>, \<open>Begin\<close> and \<open>Rollback\<close> on a session
  that answers every command with success, the trace of the whole run holds
  \<open>Call 0 Commit\<close> under the lock of connection 0 and no \<open>Rollback\<close> at all.
\<close>

theorem Tx_Rollback_sends_Commit:
  "map_option (trace \<circ> snd) (Tx_Rollback env_ok 0 begun) =
     Some [PoolLock, PoolUnlock, Call 0 Connect, Lock 0, Call 0 Begin, Unlock 0,
           Lock 0, Call 0 Commit, Unlock 0, PoolLock, PoolUnlock]"
  by (simp add: Tx_Rollback_def begun_def evals)

subsection \<open>Reuse reconciliation\<close>

lemmas evals2 = evals DB_exec_def DB_Exec_body_def DB_Exec_run_def DB_Exec_def rptr_def

text \<open>
  Claim C2. The claim asks that every connection returned by \<open>popConn\<close> have autocommit
  on and no open transaction, also when the idle candidate was both inside a
  transaction and had autocommit off. \<open>tryReuse\<close> tests autocommit only in the \<open>else\<close>
  branch of the transaction test. The connection that one \<open>DB.Exec\<close> left in the idle
  list, in a transaction and with autocommit off, is pinged, rolled back and returned
  by the next \<open>popConn\<close> with autocommit still off; no \<open>set autocommit = 1\<close> is sent.
\<close>

theorem popConn_returns_autocommit_off:
  "conns dirty_idle = [Some 0]
   \<and> inTrans (heap dirty_idle 0) \<and> \<not> autoCommit (heap dirty_idle 0)
   \<and> fst (popConn env_dirty dirty_idle) = Inr 0
   \<and> \<not> inTrans (heap (snd (popConn env_dirty dirty_idle)) 0)
   \<and> \<not> autoCommit (heap (snd (popConn env_dirty dirty_idle)) 0)
   \<and> trace dirty_idle =
       [PoolLock, PoolUnlock, Call 0 Connect, Lock 0, Call 0 (Exec ''call p()'' []), Unlock 0,
        PoolLock, PoolUnlock]
   \<and> trace (snd (popConn env_dirty dirty_idle)) =
       trace dirty_idle @ [PoolLock, PoolUnlock, Lock 0, Call 0 Ping, Call 0 Rollback, Unlock 0]"
  by (simp add: dirty_idle_def env_dirty_def evals2)

subsection \<open>The retry loops\<close>

lemma for_loop_Suc:
  "for_loop (Suc n) body s =
     (if fst (body s) then (Suc 0, snd (body s))
      else (Suc (fst (for_loop n body (snd (body s)))), snd (for_loop n body (snd (body s)))))"
  by (simp add: Let_def split_def)



lemma for_loop_first_stop:
  "fst (body s) \<Longrightarrow> for_loop (Suc n) body s = (Suc 0, snd (body s))"
  by (simp add: for_loop_Suc del: for_loop.simps(2))

lemma for_loop_all:
  "(\<And>x. P (snd (body x))) \<Longrightarrow> 0 < n \<Longrightarrow> P (snd (for_loop n body s))"
proof (induction n arbitrary: s)
  case 0
  then show ?case by simp
next
  case (Suc n)
  show ?case
  proof (cases "fst (body s) \<or> n = 0")
    case True
    with Suc.prems(1) [of s] show ?thesis
      by (auto simp add: for_loop_Suc simp del: for_loop.simps(2))
  next
    case False
    then have "P (snd (for_loop n body (snd (body s))))"
      using Suc.IH [of "snd (body s)"] Suc.prems(1) by simp
    with False show ?thesis by (simp add: for_loop_Suc del: for_loop.simps(2))
  qed
qed
























subsection \<open>Failed acquisition\<close>

lemma DB_Prepare_first:
  assumes "fst (DB_Prepare_body env query (None, newStmt query, w))"
  shows "DB_Prepare_run env query w = (1, snd (DB_Prepare_body env query (None, newStmt query, w)))"
proof -
  have "for_loop (Suc 9) (DB_Prepare_body env query) (None, newStmt query, w)
      = (Suc 0, snd (DB_Prepare_body env query (None, newStmt query, w)))"
    using assms by (rule for_loop_first_stop)
  then show ?thesis by (simp add: DB_Prepare_run_def)
qed

lemma DB_Begin_first:
  assumes "fst (DB_Begin_body env (fst (newTx w)) (None, snd (newTx w)))"
  shows "DB_Begin_run env w = (1, snd (DB_Begin_body env (fst (newTx w)) (None, snd (newTx w))))"
proof -
  have "for_loop (Suc 9) (DB_Begin_body env (fst (newTx w))) (None, snd (newTx w))
      = (Suc 0, snd (DB_Begin_body env (fst (newTx w)) (None, snd (newTx w))))"
    using assms by (rule for_loop_first_stop)
  then show ?thesis by (simp add: DB_Begin_run_def split_def Let_def)
qed

lemma nil_bodies:
  assumes "popConn env w = (Inl e, w1)"
  shows "DB_Prepare_body env query (e0, s, w)
           = (e \<noteq> ErrBadConn, (Some e, s, pushConn None (Some e) w1))"
    and "DB_Begin_body env t (e0, w) = (e \<noteq> ErrBadConn, (Some e, pushConn None (Some e) w1))"
    and "Stmt_exec env args s w = ((None, Some e), s, pushConn None (Some e) w1)"
    and "Stmt_query env args s w = ((None, Some e), s, pushConn None (Some e) w1)"
  using assms
  by (simp_all add: DB_Prepare_body_def DB_Begin_body_def DB_begin_def Stmt_exec_def
      Stmt_query_def Stmt_prepare_def)

text \<open>
  Claim C10. When \<open>popConn\<close> fails (a \<open>nil\<close> connection and an error \<open>e\<close>), one
  iteration of \<open>DB.Prepare\<close> and of \<open>DB.Begin\<close>, and \<open>Stmt.exec\<close> and \<open>Stmt.query\<close>, go
  on from the world \<open>pushConn(nil, e)\<close> leaves; for \<open>e\<close> other than \<open>ErrBadConn\<close> that
  iteration is the only one, and \<open>DB.Prepare\<close> and \<open>DB.Begin\<close> return \<open>e\<close> in that
  world. \<open>pushConn(nil, e)\<close> with \<open>e\<close> other than \<open>ErrBadConn\<close> appends the \<open>nil\<close> entry
  to the idle list whenever the list is shorter than \<open>maxIdleConns\<close>.
\<close>

theorem nil_conn_is_pushed:
  "(popConn env w = (Inl e, w1) \<longrightarrow>
      DB_Prepare_body env query (e0, s, w)
        = (e \<noteq> ErrBadConn, (Some e, s, pushConn None (Some e) w1))
      \<and> DB_Begin_body env t (e0, w) = (e \<noteq> ErrBadConn, (Some e, pushConn None (Some e) w1))
      \<and> Stmt_exec env args s w = ((None, Some e), s, pushConn None (Some e) w1)
      \<and> Stmt_query env args s w = ((None, Some e), s, pushConn None (Some e) w1))
   \<and> (popConn env w = (Inl e, w1) \<and> e \<noteq> ErrBadConn \<longrightarrow>
      DB_Prepare env query w = ((newStmt query, Some e), pushConn None (Some e) w1))
   \<and> (popConn env (snd (newTx w)) = (Inl e, w1) \<and> e \<noteq> ErrBadConn \<longrightarrow>
      DB_Begin env w = ((nextTx w, Some e), pushConn None (Some e) w1))
   \<and> (e \<noteq> ErrBadConn \<and> int (length (conns w)) < maxIdleConns w \<longrightarrow>
      conns (pushConn None (Some e) w) = conns w @ [None])"
proof -
  have a: "popConn env w = (Inl e, w1) \<longrightarrow>
      DB_Prepare_body env query (e0, s, w)
        = (e \<noteq> ErrBadConn, (Some e, s, pushConn None (Some e) w1))
      \<and> DB_Begin_body env t (e0, w) = (e \<noteq> ErrBadConn, (Some e, pushConn None (Some e) w1))
      \<and> Stmt_exec env args s w = ((None, Some e), s, pushConn None (Some e) w1)
      \<and> Stmt_query env args s w = ((None, Some e), s, pushConn None (Some e) w1)"
    by (simp add: nil_bodies)
  have b: "popConn env w = (Inl e, w1) \<and> e \<noteq> ErrBadConn \<longrightarrow>
      DB_Prepare env query w = ((newStmt query, Some e), pushConn None (Some e) w1)"
  proof
    assume h: "popConn env w = (Inl e, w1) \<and> e \<noteq> ErrBadConn"
    then have body: "DB_Prepare_body env query (None, newStmt query, w)
        = (True, (Some e, newStmt query, pushConn None (Some e) w1))"
      by (simp add: nil_bodies)
    then show "DB_Prepare env query w = ((newStmt query, Some e), pushConn None (Some e) w1)"
      by (simp add: DB_Prepare_def DB_Prepare_first)
  qed
  have c: "popConn env (snd (newTx w)) = (Inl e, w1) \<and> e \<noteq> ErrBadConn \<longrightarrow>
      DB_Begin env w = ((nextTx w, Some e), pushConn None (Some e) w1)"
  proof
    assume h: "popConn env (snd (newTx w)) = (Inl e, w1) \<and> e \<noteq> ErrBadConn"
    then have body: "DB_Begin_body env (fst (newTx w)) (None, snd (newTx w))
        = (True, (Some e, pushConn None (Some e) w1))"
      by (simp add: nil_bodies)
    then show "DB_Begin env w = ((nextTx w, Some e), pushConn None (Some e) w1)"
      by (simp add: DB_Begin_def DB_Begin_first)
  qed
  have d: "e \<noteq> ErrBadConn \<and> int (length (conns w)) < maxIdleConns w \<longrightarrow>
      conns (pushConn None (Some e) w) = conns w @ [None]"
    by (simp add: pushConn_room)
  from a b c d show ?thesis by (intro conjI)
qed

lemma connect_fails_pop:
  "fst (popConn env_connect_fails (NewDB 1)) = Inl (ErrOther 1)"
  "conns (snd (popConn env_connect_fails (NewDB 1))) = []"
  "maxIdleConns (snd (popConn env_connect_fails (NewDB 1))) = 1"
  "fst (popConn env_connect_fails (snd (newTx (NewDB 1)))) = Inl (ErrOther 1)"
  "conns (snd (popConn env_connect_fails (snd (newTx (NewDB 1))))) = []"
  "maxIdleConns (snd (popConn env_connect_fails (snd (newTx (NewDB 1))))) = 1"
  by (simp_all add: env_connect_fails_def evals)

theorem nil_conn_is_pushed_witness:
  "fst (popConn env_connect_fails (NewDB 1)) = Inl (ErrOther 1)
   \<and> snd (fst (DB_Prepare env_connect_fails ''select 1'' (NewDB 1))) = Some (ErrOther 1)
   \<and> conns (snd (DB_Prepare env_connect_fails ''select 1'' (NewDB 1))) = [None]
   \<and> snd (fst (DB_Begin env_connect_fails (NewDB 1))) = Some (ErrOther 1)
   \<and> conns (snd (DB_Begin env_connect_fails (NewDB 1))) = [None]
   \<and> conns (snd (snd (Stmt_exec env_connect_fails [] (newStmt ''select 1'') (NewDB 1)))) = [None]
   \<and> conns (snd (snd (Stmt_query env_connect_fails [] (newStmt ''select 1'') (NewDB 1)))) = [None]"
proof -
  have p: "popConn env_connect_fails (NewDB 1)
      = (Inl (ErrOther 1), snd (popConn env_connect_fails (NewDB 1)))"
    using connect_fails_pop(1) by (metis prod.collapse)
  have q: "popConn env_connect_fails (snd (newTx (NewDB 1)))
      = (Inl (ErrOther 1), snd (popConn env_connect_fails (snd (newTx (NewDB 1)))))"
    using connect_fails_pop(4) by (metis prod.collapse)
  show ?thesis
    using nil_conn_is_pushed [where env = env_connect_fails and w = "NewDB 1"
        and e = "ErrOther 1" and ?w1.0 = "snd (popConn env_connect_fails (NewDB 1))"
        and query = "''select 1''" and ?e0.0 = None and s = "newStmt ''select 1''" and t = 0
        and args = "[]"]
      nil_conn_is_pushed [where env = env_connect_fails and w = "NewDB 1"
        and e = "ErrOther 1" and ?w1.0 = "snd (popConn env_connect_fails (snd (newTx (NewDB 1))))"
        and query = "''select 1''" and ?e0.0 = None and s = "newStmt ''select 1''" and t = 0
        and args = "[]"]
      nil_conn_is_pushed [where env = env_connect_fails
        and w = "snd (popConn env_connect_fails (NewDB 1))"
        and e = "ErrOther 1" and ?w1.0 = "NewDB 1"
        and query = "''select 1''" and ?e0.0 = None and s = "newStmt ''select 1''" and t = 0
        and args = "[]"]
      nil_conn_is_pushed [where env = env_connect_fails
        and w = "snd (popConn env_connect_fails (snd (newTx (NewDB 1))))"
        and e = "ErrOther 1" and ?w1.0 = "NewDB 1"
        and query = "''select 1''" and ?e0.0 = None and s = "newStmt ''select 1''" and t = 0
        and args = "[]"]
      p q connect_fails_pop
    by simp
qed

subsection \<open>Statements bound to a transaction\<close>







subsection \<open>The statement cache\<close>

lemma popConn_reuse_ok:
  assumes ok: "\<forall>i x. rerr (env i x) = None" and idle: "conns w = xs @ [Some c]"
  shows "\<exists>w1. popConn env w = (Inr c, w1) \<and> conns w1 = xs
      \<and> maxIdleConns w1 = maxIdleConns w
      \<and> filter is_Prepare (trace w1) = filter is_Prepare (trace w)
      \<and> filter is_StmtExec (trace w1) = filter is_StmtExec (trace w)"
  using assms by (simp add: popConn_def tryReuse_def send_def Let_def)

lemma Stmt_prepare_hit:
  assumes "popConn env w = (Inr c, w1)" and "stmts s c = Some st"
  shows "Stmt_prepare env query s w = (Inr (c, st), s, w1)"
  using assms by (simp add: Stmt_prepare_def)

lemma Stmt_prepare_miss:
  assumes "popConn env w = (Inr c, w1)" and "stmts s c = None"
  shows "\<exists>w2. trace w2 = trace w1 @ [Lock c, Call c (Prepare query), Unlock c]
      \<and> conns w2 = conns w1
      \<and> Stmt_prepare env query s w =
          (case rerr (env (clock w1) (Prepare query)) of
             None \<Rightarrow> (Inr (c, rval (env (clock w1) (Prepare query))),
                       s\<lparr>stmts := (stmts s)(c \<mapsto> rval (env (clock w1) (Prepare query)))\<rparr>, w2)
           | Some e \<Rightarrow> (Inl (Some c, e), s, w2))"
  using assms by (simp add: Stmt_prepare_def send_def Let_def split: option.splits)

lemma Stmt_Exec_first:
  assumes "tx s = None" and "snd (fst (Stmt_exec env args s w)) \<noteq> Some ErrBadConn"
  shows "Stmt_Exec env args s w = Some (Stmt_exec env args s w)"
proof -
  have "fst (Stmt_Exec_body env args ((None, None), s, w))"
    using assms(2) by (simp add: Stmt_Exec_body_def split_def Let_def)
  then have "for_loop (Suc 9) (Stmt_Exec_body env args) ((None, None), s, w)
      = (Suc 0, snd (Stmt_Exec_body env args ((None, None), s, w)))"
    by (rule for_loop_first_stop)
  then show ?thesis
    using assms(1) by (simp add: Stmt_Exec_def Stmt_Exec_pool_def Stmt_Exec_body_def split_def Let_def)
qed

lemma Stmt_Exec_hit:
  assumes ok: "\<forall>i x. rerr (env i x) = None" and "tx s = None" and "stmts s c = Some h"
    and "conns w = [Some c]" and "maxIdleConns w = 1"
  shows "\<exists>r w'. Stmt_Exec env a s w = Some ((r, None), s, w')
      \<and> conns w' = [Some c] \<and> maxIdleConns w' = 1
      \<and> filter is_Prepare (trace w') = filter is_Prepare (trace w)
      \<and> filter is_StmtExec (trace w') = filter is_StmtExec (trace w) @ [Call c (StmtExec h a)]"
proof -
  from popConn_reuse_ok [OF ok, of w "[]" c] assms(4,5) obtain w1 where
    p: "popConn env w = (Inr c, w1)" and w1: "conns w1 = []" "maxIdleConns w1 = 1"
      "filter is_Prepare (trace w1) = filter is_Prepare (trace w)"
      "filter is_StmtExec (trace w1) = filter is_StmtExec (trace w)"
    by auto
  have prep: "Stmt_prepare env (str s) s w = (Inr (c, h), s, w1)"
    using p assms(3) by (rule Stmt_prepare_hit)
  define w4 where "w4 = emit (Unlock c) (snd (send env c (StmtExec h a) (emit (Lock c) w1)))"
  have w4: "conns w4 = []" "maxIdleConns w4 = 1"
    "filter is_Prepare (trace w4) = filter is_Prepare (trace w)"
    "filter is_StmtExec (trace w4) = filter is_StmtExec (trace w) @ [Call c (StmtExec h a)]"
    using w1 by (simp_all add: w4_def send_def Let_def)
  have ex: "Stmt_exec env a s w =
      ((rptr (env (clock w1) (StmtExec h a)), None), s, pushConn (Some c) None w4)"
    using prep ok by (simp add: Stmt_exec_def w4_def send_def Let_def)
  have push: "pushConn (Some c) None w4 = emit PoolUnlock ((emit PoolLock w4)\<lparr>conns := conns w4 @ [Some c]\<rparr>)"
    using w4 by (simp add: pushConn_room)
  have "Stmt_Exec env a s w = Some (Stmt_exec env a s w)"
    using assms(2) ex by (simp add: Stmt_Exec_first)
  with ex push w4 show ?thesis by simp
qed

lemma DB_Prepare_fresh:
  assumes ok: "\<forall>i x. rerr (env i x) = None"
  shows "\<exists>s w1. DB_Prepare env query (NewDB 1) = ((s, None), w1)
      \<and> tx s = None \<and> stmts s 0 = Some (rval (env 1 (Prepare query)))
      \<and> conns w1 = [Some 0] \<and> maxIdleConns w1 = 1
      \<and> filter is_Prepare (trace w1) = [Call 0 (Prepare query)]
      \<and> filter is_StmtExec (trace w1) = []"
proof -
  obtain stop e s1 wb where
    b: "DB_Prepare_body env query (None, newStmt query, NewDB 1) = (stop, e, s1, wb)"
    by (metis prod_cases4)
  have facts: "stop" "e = None" "tx s1 = None" "stmts s1 0 = Some (rval (env 1 (Prepare query)))"
    "conns wb = [Some 0]" "maxIdleConns wb = 1"
    "filter is_Prepare (trace wb) = [Call 0 (Prepare query)]"
    "filter is_StmtExec (trace wb) = []"
    using b ok by (auto simp add: DB_Prepare_body_def Stmt_prepare_def newStmt_def evals)
  have "fst (DB_Prepare_body env query (None, newStmt query, NewDB 1))"
    by (simp add: b facts)
  then have "DB_Prepare env query (NewDB 1) = ((s1, None), wb)"
    by (simp add: DB_Prepare_def DB_Prepare_first b facts)
  with facts show ?thesis by simp
qed

lemma prepare_once:
  assumes ok: "\<forall>i x. rerr (env i x) = None"
  shows "\<exists>w3. prepare_exec_exec env query a1 a2 = Some (None, None, None, w3)
      \<and> filter is_Prepare (trace w3) = [Call 0 (Prepare query)]
      \<and> filter is_StmtExec (trace w3) =
          [Call 0 (StmtExec (rval (env 1 (Prepare query))) a1),
           Call 0 (StmtExec (rval (env 1 (Prepare query))) a2)]"
proof -
  from DB_Prepare_fresh [OF ok, of query] obtain s w1 where
    p: "DB_Prepare env query (NewDB 1) = ((s, None), w1)" and s: "tx s = None"
      "stmts s 0 = Some (rval (env 1 (Prepare query)))"
    and w1: "conns w1 = [Some 0]" "maxIdleConns w1 = 1"
      "filter is_Prepare (trace w1) = [Call 0 (Prepare query)]"
      "filter is_StmtExec (trace w1) = []"
    by blast
  from Stmt_Exec_hit [OF ok s w1(1,2), of a1] obtain r1 w2 where
    e1: "Stmt_Exec env a1 s w1 = Some ((r1, None), s, w2)"
    and w2: "conns w2 = [Some 0]" "maxIdleConns w2 = 1"
      "filter is_Prepare (trace w2) = filter is_Prepare (trace w1)"
      "filter is_StmtExec (trace w2) = filter is_StmtExec (trace w1)
         @ [Call 0 (StmtExec (rval (env 1 (Prepare query))) a1)]"
    by blast
  from Stmt_Exec_hit [OF ok s w2(1,2), of a2] obtain r2 w3 where
    e2: "Stmt_Exec env a2 s w2 = Some ((r2, None), s, w3)"
    and w3: "filter is_Prepare (trace w3) = filter is_Prepare (trace w2)"
      "filter is_StmtExec (trace w3) = filter is_StmtExec (trace w2)
         @ [Call 0 (StmtExec (rval (env 1 (Prepare query))) a2)]"
    by blast
  have "prepare_exec_exec env query a1 a2 = Some (None, None, None, w3)"
    by (simp add: prepare_exec_exec_def p e1 e2)
  with w1 w2 w3 show ?thesis by simp
qed

text \<open>
  Claim C6. In pool mode \<open>Stmt.prepare\<close> first takes a connection \<open>c\<close> from \<open>popConn\<close>.
  If \<open>Stmt.stmts\<close> has an entry for \<open>c\<close>, it returns that server statement in the very
  world \<open>popConn\<close> left: no command is sent and the cache is unchanged. If it has none,
  it sends one \<open>Prepare\<close> on \<open>c\<close> under the lock of \<open>c\<close>; on success the result is
  returned and stored under \<open>c\<close>, on failure the error is returned and the cache is
  unchanged. Hence, on a session that answers every command with success, the run
  \<open>NewDB(.., 1)\<close>, \<open>DB.Prepare\<close>, \<open>Stmt.Exec\<close>, \<open>Stmt.Exec\<close> succeeds three times, sends
  exactly one \<open>Prepare\<close>, and executes the server statement it returned twice on
  connection 0.
\<close>

theorem Stmt_prepare_cache:
  "(popConn env w = (Inr c, w1) \<and> stmts s c = Some st \<longrightarrow>
      Stmt_prepare env query s w = (Inr (c, st), s, w1))
   \<and> (popConn env w = (Inr c, w1) \<and> stmts s c = None \<longrightarrow>
      (\<exists>w2. trace w2 = trace w1 @ [Lock c, Call c (Prepare query), Unlock c]
           \<and> conns w2 = conns w1
           \<and> Stmt_prepare env query s w =
               (case rerr (env (clock w1) (Prepare query)) of
                  None \<Rightarrow> (Inr (c, rval (env (clock w1) (Prepare query))),
                            s\<lparr>stmts := (stmts s)(c \<mapsto> rval (env (clock w1) (Prepare query)))\<rparr>, w2)
                | Some e \<Rightarrow> (Inl (Some c, e), s, w2))))
   \<and> ((\<forall>i x. rerr (env i x) = None) \<longrightarrow>
      (\<exists>w3. prepare_exec_exec env query a1 a2 = Some (None, None, None, w3)
           \<and> filter is_Prepare (trace w3) = [Call 0 (Prepare query)]
           \<and> filter is_StmtExec (trace w3) =
               [Call 0 (StmtExec (rval (env 1 (Prepare query))) a1),
                Call 0 (StmtExec (rval (env 1 (Prepare query))) a2)]))"
  using Stmt_prepare_hit [of env w c w1 s st query] Stmt_prepare_miss [of env w c w1 s query]
    prepare_once [of env query a1 a2]
  by blast

lemma prepared_facts:
  "fst (popConn env_ok (snd prepared)) = Inr 0" "stmts (fst (fst prepared)) 0 = Some 1"
  "fst (popConn env_ok (NewDB 1)) = Inr 0" "clock (snd (popConn env_ok (NewDB 1))) = 1"
  by (simp_all add: prepared_def DB_Prepare_def DB_Prepare_run_def DB_Prepare_body_def
      Stmt_prepare_def newStmt_def evals)

theorem Stmt_prepare_cache_witness:
  "fst (popConn env_ok (snd prepared)) = Inr 0 \<and> stmts (fst (fst prepared)) 0 = Some 1
   \<and> Stmt_prepare env_ok ''select 1'' (fst (fst prepared)) (snd prepared)
       = (Inr (0, 1), fst (fst prepared), snd (popConn env_ok (snd prepared)))
   \<and> fst (popConn env_ok (NewDB 1)) = Inr 0 \<and> stmts (newStmt ''select 1'') 0 = None
   \<and> fst (Stmt_prepare env_ok ''select 1'' (newStmt ''select 1'') (NewDB 1)) = Inr (0, 1)
   \<and> stmts (fst (snd (Stmt_prepare env_ok ''select 1'' (newStmt ''select 1'') (NewDB 1)))) 0
       = Some 1
   \<and> (\<exists>w3. prepare_exec_exec env_ok ''select 1'' [] [] = Some (None, None, None, w3)
          \<and> length (filter is_Prepare (trace w3)) = 1
          \<and> filter is_StmtExec (trace w3) = [Call 0 (StmtExec 1 []), Call 0 (StmtExec 1 [])])"
proof -
  have p: "popConn env_ok (snd prepared) = (Inr 0, snd (popConn env_ok (snd prepared)))"
    using prepared_facts(1) by (metis prod.collapse)
  have q: "popConn env_ok (NewDB 1) = (Inr 0, snd (popConn env_ok (NewDB 1)))"
    using prepared_facts(3) by (metis prod.collapse)
  have ok: "\<forall>i x. rerr (env_ok i x) = None" by (simp add: env_ok_def)
  have v: "rval (env_ok 1 (Prepare ''select 1'')) = 1" "rerr (env_ok 1 (Prepare ''select 1'')) = None"
    by (simp_all add: env_ok_def)
  have n: "stmts (newStmt ''select 1'') 0 = None" by (simp add: newStmt_def)
  show ?thesis
    using Stmt_prepare_cache [where env = env_ok and w = "snd prepared" and c = 0
        and ?w1.0 = "snd (popConn env_ok (snd prepared))" and s = "fst (fst prepared)"
        and st = 1 and query = "''select 1''" and ?a1.0 = "[]" and ?a2.0 = "[]"]
      Stmt_prepare_cache [where env = env_ok and w = "NewDB 1" and c = 0
        and ?w1.0 = "snd (popConn env_ok (NewDB 1))" and s = "newStmt ''select 1''"
        and st = 1 and query = "''select 1''" and ?a1.0 = "[]" and ?a2.0 = "[]"]
      p q ok v n prepared_facts
    by auto
qed

subsection \<open>\<open>Stmt.Close\<close>\<close>

lemma close_entries_spec:
  assumes "\<forall>c. closed (heap w c) = cl c"
  shows "trace (snd (close_entries env es e0 w)) =
           trace w @ concat (map (\<lambda>(c, st). Lock c # (if cl c then [] else [Call c (StmtClose st)])
                                   @ [Unlock c]) es)
       \<and> fst (close_entries env es e0 w) =
           (let att = filter (\<lambda>(c, st). \<not> cl c) es
            in if att = [] then e0
               else rerr (env (clock w + length att - 1) (StmtClose (snd (last att)))))
       \<and> conns (snd (close_entries env es e0 w)) = conns w"
  using assms
proof (induction es arbitrary: e0 w)
  case Nil
  then show ?case by simp
next
  case (Cons x es)
  obtain c st where x: "x = (c, st)" by (cases x)
  show ?case
  proof (cases "cl c")
    case True
    define w3 where "w3 = emit (Unlock c) (emit (Lock c) w)"
    have step: "close_entries env (x # es) e0 w = close_entries env es e0 w3"
      using True Cons.prems by (simp add: x w3_def Let_def)
    have inv: "\<forall>c. closed (heap w3 c) = cl c" using Cons.prems by (simp add: w3_def)
    have w3: "trace w3 = trace w @ [Lock c, Unlock c]" "clock w3 = clock w" "conns w3 = conns w"
      by (simp_all add: w3_def)
    from Cons.IH [OF inv, of e0] step w3 True show ?thesis
      by (simp add: x Let_def)
  next
    case False
    define w3 where "w3 = emit (Unlock c) (snd (send env c (StmtClose st) (emit (Lock c) w)))"
    define e1 where "e1 = rerr (env (clock w) (StmtClose st))"
    have step: "close_entries env (x # es) e0 w = close_entries env es e1 w3"
      using False Cons.prems by (simp add: x w3_def e1_def Let_def send_def)
    have inv: "\<forall>c. closed (heap w3 c) = cl c"
      using Cons.prems by (simp add: w3_def send_def Let_def)
    have w3: "trace w3 = trace w @ [Lock c, Call c (StmtClose st), Unlock c]"
      "clock w3 = Suc (clock w)" "conns w3 = conns w"
      by (simp_all add: w3_def send_def Let_def)
    from Cons.IH [OF inv, of e1] step w3 False show ?thesis
      by (auto simp add: x Let_def e1_def)
  qed
qed

lemma entries_set:
  "set (entries s order) = {(c, st). c \<in> set order \<and> stmts s c = Some st}"
  by (induction order) (auto simp: entries_def List.map_filter_def)

lemma entries_keys: "map fst (entries s order) = filter (\<lambda>c. stmts s c \<noteq> None) order"
  by (induction order) (auto simp: entries_def List.map_filter_def)

text \<open>
  Claim C9, as amended. In pool mode (\<open>tx\<close> is \<open>nil\<close>), for every order in which the
  range enumerates the keys of \<open>Stmt.stmts\<close>, \<open>Stmt.Close\<close> visits every cached entry
  once; for each it locks the connection, sends the close of the server statement only
  if the connection is not closed, and unlocks it. Afterwards \<open>Stmt.stmts\<close> is empty.
  \<open>Stmt.Close\<close> returns what the last close it sent returned: \<open>nil\<close> when that close
  succeeded, whatever the earlier ones returned, and \<open>nil\<close> when no close was sent.
\<close>

theorem Stmt_Close_pool:
  assumes "tx s = None" and "distinct order" and "set order = dom (stmts s)"
  shows "\<exists>e w'. Stmt_Close env order s w = Some (e, s\<lparr>stmts := Map.empty\<rparr>, w')
      \<and> set (entries s order) = {(c, st). stmts s c = Some st}
      \<and> distinct (map fst (entries s order))
      \<and> trace w' = trace w @ concat (map (\<lambda>(c, st).
            Lock c # (if closed (heap w c) then [] else [Call c (StmtClose st)]) @ [Unlock c])
          (entries s order))
      \<and> e = (let att = filter (\<lambda>(c, st). \<not> closed (heap w c)) (entries s order)
             in if att = [] then None
                else rerr (env (clock w + length att - 1) (StmtClose (snd (last att)))))"
proof -
  have run: "Stmt_Close env order s w =
      Some (fst (close_entries env (entries s order) None w), s\<lparr>stmts := Map.empty\<rparr>,
            snd (close_entries env (entries s order) None w))"
    using assms(1) by (simp add: Stmt_Close_def split_def Let_def)
  have set: "set (entries s order) = {(c, st). stmts s c = Some st}"
    using assms(3) by (auto simp: entries_set)
  have dist: "distinct (map fst (entries s order))"
    using assms(2) by (simp add: entries_keys)
  from close_entries_spec [of w "\<lambda>c. closed (heap w c)" env "entries s order" None] run set dist
  show ?thesis by simp
qed

lemma twice_facts:
  "cached_twice = Some (twice_stmt, twice_world)"
  "tx twice_stmt = None" "stmts twice_stmt 0 = Some 1" "stmts twice_stmt 1 = Some 5"
  "dom (stmts twice_stmt) = {0, 1}" "conns twice_world = [Some 1, Some 0]"
  "\<not> closed (heap twice_world 0)" "\<not> closed (heap twice_world 1)" "clock twice_world = 8"
  by (auto simp add: twice_stmt_def twice_world_def cached_twice_def env_close_fails_def
      DB_Prepare_def DB_Prepare_run_def
      DB_Prepare_body_def Stmt_prepare_def newStmt_def Stmt_Exec_def Stmt_Exec_pool_def
      Stmt_Exec_body_def Stmt_exec_def Tx_Commit_def rptr_def evals)

theorem Stmt_Close_pool_witness:
  "tx twice_stmt = None \<and> distinct [1, 0 :: nat] \<and> set [1, 0] = dom (stmts twice_stmt)
   \<and> (\<exists>w'. Stmt_Close env_close_fails [1, 0] twice_stmt twice_world =
              Some (Some (ErrOther 1), twice_stmt\<lparr>stmts := Map.empty\<rparr>, w')
          \<and> trace w' = trace twice_world @
              [Lock 1, Call 1 (StmtClose 5), Unlock 1, Lock 0, Call 0 (StmtClose 1), Unlock 0])"
  using Stmt_Close_pool [of twice_stmt "[1, 0]" env_close_fails twice_world] twice_facts
  by (auto simp add: entries_def List.map_filter_def env_close_fails_def)

text \<open>
  Claim C9 as stated fails. With the statement cached on the open connections 0 and 1
  and the range taken in the order 0, 1, the close on connection 0 fails with an error
  and the close on connection 1 succeeds: an error was observed, and \<open>Stmt.Close\<close>
  returns \<open>nil\<close>.
\<close>

theorem Stmt_Close_masks_error:
  "cached_twice = Some (twice_stmt, twice_world)
   \<and> tx twice_stmt = None \<and> stmts twice_stmt 0 = Some 1 \<and> stmts twice_stmt 1 = Some 5
   \<and> \<not> closed (heap twice_world 0) \<and> \<not> closed (heap twice_world 1)
   \<and> rerr (env_close_fails (clock twice_world) (StmtClose 1)) = Some (ErrOther 1)
   \<and> map_option fst (Stmt_Close env_close_fails [0, 1] twice_stmt twice_world) = Some None
   \<and> map_option (trace \<circ> snd \<circ> snd) (Stmt_Close env_close_fails [0, 1] twice_stmt twice_world) =
       Some (trace twice_world @ [Lock 0, Call 0 (StmtClose 1), Unlock 0,
                                  Lock 1, Call 1 (StmtClose 5), Unlock 1])"
  using twice_facts
  by (simp add: Stmt_Close_def entries_def List.map_filter_def env_close_fails_def send_def
      emit_def Let_def)

subsection \<open>What a successful \<open>Begin\<close> returns\<close>

text \<open>
  The \<open>Tx\<close> that \<open>DB.Begin\<close> returns with a \<open>nil\<close> error pins a connection: the
  transactions the properties above are about (\<open>tx_conn\<close> is not \<open>nil\<close>) are those a
  caller gets from a successful \<open>Begin\<close>.
\<close>

lemma DB_Begin_body_pins:
  "fst (snd (DB_Begin_body env t x)) = None \<longrightarrow>
     (\<exists>c. tx_conn (txs (snd (snd (DB_Begin_body env t x))) t) = Some c)"
  by (auto simp: DB_Begin_body_def DB_begin_def send_def Let_def split_def
      split: sum.splits option.splits)

lemma DB_Begin_pins:
  assumes "DB_Begin env w = ((t, None), w1)"
  shows "t = nextTx w \<and> (\<exists>c. tx_conn (txs w1 t) = Some c)"
proof -
  have "fst (snd (for_loop 10 (DB_Begin_body env (nextTx w)) (None, snd (newTx w)))) = None \<longrightarrow>
      (\<exists>c. tx_conn (txs (snd (snd (for_loop 10 (DB_Begin_body env (nextTx w))
          (None, snd (newTx w))))) (nextTx w)) = Some c)"
    by (rule for_loop_all [where P = "\<lambda>x. fst x = None \<longrightarrow> (\<exists>c. tx_conn (txs (snd x) (nextTx w)) = Some c)"])
       (simp_all add: DB_Begin_body_pins)
  with assms show ?thesis
    by (auto simp: DB_Begin_def DB_Begin_run_def newTx_def Let_def split_def)
qed

end
